theory Spec2Isabelle
  imports Main "HOL-Library.Word"
begin

unbundle bit_operations_syntax

section \<open>The watchdog cycle controller of ArduinoWatchdog\<close>

text \<open>
  A shallow embedding of \<^verbatim>\<open>Watchdog.cpp\<close>. The target is an AVR microcontroller
  (the file includes \<^verbatim>\<open>avr/wdt.h\<close>), so \<^verbatim>\<open>uint8_t\<close> is an 8-bit word,
  \<^verbatim>\<open>int\<close> and \<^verbatim>\<open>unsigned int\<close> are 16-bit words and
  \<^verbatim>\<open>unsigned long long\<close> is a 64-bit word.
\<close>

type_synonym uint8_t = "8 word"
type_synonym uint16_t = "16 word"
type_synonym int16_t = "16 word"
type_synonym uint64_t = "64 word"

subsection \<open>Constants of the AVR headers\<close>

text \<open>
  The timeout codes \<^verbatim>\<open>WDTO_1S\<close> .. \<^verbatim>\<open>WDTO_8S\<close> are the prescaler values
  WDP3..WDP0 of the table in \<^verbatim>\<open>Configure\<close>'s comment: 0110 for 1.0 s, 0111 for 2.0 s,
  1000 for 4.0 s and 1001 for 8.0 s.
\<close>

definition WDTO_1S :: uint8_t where "WDTO_1S = 6"
definition WDTO_2S :: uint8_t where "WDTO_2S = 7"
definition WDTO_4S :: uint8_t where "WDTO_4S = 8"
definition WDTO_8S :: uint8_t where "WDTO_8S = 9"

text \<open>
  Bit numbers of the watchdog control register WDTCSR and of the reset-cause
  register MCUSR, as the ATmega328P's register layout gives them.
\<close>

definition WDP0 :: nat where "WDP0 = 0"
definition WDP1 :: nat where "WDP1 = 1"
definition WDP2 :: nat where "WDP2 = 2"
definition WDE :: nat where "WDE = 3"
definition WDCE :: nat where "WDCE = 4"
definition WDP3 :: nat where "WDP3 = 5"
definition WDIE :: nat where "WDIE = 6"
definition WDRF :: nat where "WDRF = 3"

text \<open>The macro \<^verbatim>\<open>_BV(bit)\<close> is \<^verbatim>\<open>(1 << (bit))\<close>.\<close>

definition BV :: "nat \<Rightarrow> uint8_t" where
  "BV b = push_bit b 1"

lemmas avr_consts =
  WDTO_1S_def WDTO_2S_def WDTO_4S_def WDTO_8S_def
  WDP0_def WDP1_def WDP2_def WDP3_def WDE_def WDCE_def WDIE_def WDRF_def BV_def

subsection \<open>The state of the device\<close>

text \<open>
  The three variables of the source (\<^verbatim>\<open>_wdto\<close>, \<^verbatim>\<open>_sleepOrWaitCount\<close>,
  \<^verbatim>\<open>_waitTotal\<close>) and the hardware the code touches: the two registers, the global
  interrupt-enable flag of SREG, the watchdog's timer (restarted by \<^verbatim>\<open>wdt_reset\<close>),
  the power state of the peripherals, the sleep-mode selection and sleep-enable bit
  of SMCR, and the number of times the CPU has entered the low-power state.
\<close>

datatype sleep_mode_t =
  SLEEP_MODE_IDLE | SLEEP_MODE_ADC | SLEEP_MODE_PWR_SAVE | SLEEP_MODE_STANDBY | SLEEP_MODE_PWR_DOWN

record mcu =
  wdto :: uint8_t
  sleepOrWaitCount :: uint64_t
  waitTotal :: uint64_t
  WDTCSR :: uint8_t
  MCUSR :: uint8_t
  irq_enabled :: bool
  wdt_timer :: nat
  peripherals_on :: bool
  sleep_sel :: sleep_mode_t
  sleep_en :: bool
  sleep_entries :: nat

text \<open>
  The globals at program start, lines 8 to 10 of the source: the step is
  \<^verbatim>\<open>WDTO_8S\<close>, the counter is 0 and the target is 1. The hardware is as it is
  when the sketch starts to run: watchdog off, interrupts enabled.
\<close>

definition boot_state :: mcu where
  "boot_state =
     \<lparr> wdto = WDTO_8S, sleepOrWaitCount = 0, waitTotal = 1,
       WDTCSR = 0, MCUSR = 0, irq_enabled = True, wdt_timer = 0,
       peripherals_on = True, sleep_sel = SLEEP_MODE_IDLE, sleep_en = False,
       sleep_entries = 0 \<rparr>"

text \<open>
  The operating mode is read from WDTCSR: with WDIE set an expiry raises the
  interrupt; with WDE set and WDIE clear an expiry resets the device.
\<close>

datatype operating_mode = ResetMode | InterruptMode | Stopped

definition mode_of :: "uint8_t \<Rightarrow> operating_mode" where
  "mode_of w =
     (if w AND BV WDIE \<noteq> 0 then InterruptMode
      else if w AND BV WDE \<noteq> 0 then ResetMode
      else Stopped)"

definition hw_mode :: "mcu \<Rightarrow> operating_mode" where
  "hw_mode s = mode_of (WDTCSR s)"

subsection \<open>Period Quantizer\<close>

definition DeterminePeriod :: "uint16_t \<Rightarrow> uint8_t" where
  "DeterminePeriod periodInSeconds =
     (if periodInSeconds \<ge> 8 \<or> periodInSeconds = 0 then WDTO_8S
      else if periodInSeconds \<ge> 4 then WDTO_4S
      else if periodInSeconds \<ge> 2 then WDTO_2S
      else WDTO_1S)"

text \<open>
  The whole seconds of a timeout code, after the table in \<^verbatim>\<open>Configure\<close>'s
  comment; the codes below \<^verbatim>\<open>WDTO_1S\<close> last less than a second.
\<close>

definition stepSeconds :: "uint8_t \<Rightarrow> nat" where
  "stepSeconds w =
     (if w = WDTO_8S then 8 else if w = WDTO_4S then 4
      else if w = WDTO_2S then 2 else if w = WDTO_1S then 1 else 0)"

definition supported_steps :: "uint8_t set" where
  "supported_steps = {WDTO_1S, WDTO_2S, WDTO_4S, WDTO_8S}"

subsection \<open>Hardware Programmer\<close>

text \<open>
  \<^verbatim>\<open>Configure\<close> is a straight line of hardware accesses. Each is an operation
  with its effect on the state, so that the state in which every register write
  happens can be read off. \<^verbatim>\<open>noInterrupts()\<close> is \<^verbatim>\<open>cli\<close> and \<^verbatim>\<open>interrupts()\<close>
  is \<^verbatim>\<open>sei\<close>: they clear and set the flag, whatever it was.
\<close>

datatype hw_op =
  NoInterrupts
  | Interrupts
  | MCUSR_and uint8_t
  | WDTCSR_write uint8_t
  | Wdt_reset

fun exec_op :: "hw_op \<Rightarrow> mcu \<Rightarrow> mcu" where
  "exec_op NoInterrupts s = s\<lparr>irq_enabled := False\<rparr>"
| "exec_op Interrupts s = s\<lparr>irq_enabled := True\<rparr>"
| "exec_op (MCUSR_and m) s = s\<lparr>MCUSR := MCUSR s AND m\<rparr>"
| "exec_op (WDTCSR_write v) s = s\<lparr>WDTCSR := v\<rparr>"
| "exec_op Wdt_reset s = s\<lparr>wdt_timer := 0\<rparr>"

fun run_ops :: "hw_op list \<Rightarrow> mcu \<Rightarrow> mcu" where
  "run_ops [] s = s"
| "run_ops (x # xs) s = run_ops xs (exec_op x s)"

text \<open>Every operation of a run, paired with the state it executes in.\<close>

fun op_states :: "hw_op list \<Rightarrow> mcu \<Rightarrow> (hw_op \<times> mcu) list" where
  "op_states [] s = []"
| "op_states (x # xs) s = (x, s) # op_states xs (exec_op x s)"

fun is_WDTCSR_write :: "hw_op \<Rightarrow> bool" where
  "is_WDTCSR_write (WDTCSR_write v) = True"
| "is_WDTCSR_write _ = False"

definition wdps_of :: "uint8_t \<Rightarrow> bool \<Rightarrow> uint8_t" where
  "wdps_of w sleepOrWait =
     (if w AND 0x08 \<noteq> 0 then BV WDP3 else 0)
     OR (if w AND 0x04 \<noteq> 0 then BV WDP2 else 0)
     OR (if w AND 0x02 \<noteq> 0 then BV WDP1 else 0)
     OR (if w AND 0x01 \<noteq> 0 then BV WDP0 else 0)
     OR BV WDE
     OR (if sleepOrWait then BV WDIE else 0)"

definition Configure_ops :: "bool \<Rightarrow> mcu \<Rightarrow> hw_op list" where
  "Configure_ops sleepOrWait s =
     [ NoInterrupts,
       MCUSR_and (NOT (BV WDRF)),
       WDTCSR_write (BV WDCE OR BV WDE),
       WDTCSR_write (wdps_of (wdto s) sleepOrWait),
       Interrupts,
       Wdt_reset ]"

definition Configure :: "bool \<Rightarrow> mcu \<Rightarrow> mcu" where
  "Configure sleepOrWait s = run_ops (Configure_ops sleepOrWait s) s"

subsection \<open>Interrupt Handler\<close>

text \<open>Lines 191 to 206, \<^verbatim>\<open>ISR(WDT_vect)\<close>.\<close>

definition ISR_WDT :: "mcu \<Rightarrow> mcu" where
  "ISR_WDT s =
     (let s1 = s\<lparr>sleepOrWaitCount := sleepOrWaitCount s + 1\<rparr> in
      if sleepOrWaitCount s1 < waitTotal s1 then Configure True s1
      else if sleepOrWaitCount s1 = waitTotal s1 \<and> waitTotal s1 \<noteq> 0 then Configure False s1
      else s1)"

text \<open>
  One expiry of the watchdog while WDIE is set, as the hardware serves it: with WDE
  set the hardware clears WDIE (the next expiry would reset the device unless the
  software sets WDIE again), the handler runs with the interrupt flag cleared, and
  the return from the handler sets the flag.
\<close>

definition isr_entry :: "mcu \<Rightarrow> mcu" where
  "isr_entry s =
     s\<lparr> WDTCSR := (if WDTCSR s AND BV WDE \<noteq> 0 then WDTCSR s AND NOT (BV WDIE) else WDTCSR s),
        irq_enabled := False \<rparr>"

definition reti :: "mcu \<Rightarrow> mcu" where
  "reti s = s\<lparr>irq_enabled := True\<rparr>"

definition wdt_interrupt :: "mcu \<Rightarrow> mcu" where
  "wdt_interrupt s = reti (ISR_WDT (isr_entry s))"

subsection \<open>Cycle Sequencer\<close>

text \<open>
  The library calls of the source: \<^verbatim>\<open>wdt_reset\<close> restarts the watchdog's timer,
  \<^verbatim>\<open>wdt_disable\<close> turns the watchdog off, the power and sleep calls set the bits
  they are named after.
\<close>

definition wdt_reset :: "mcu \<Rightarrow> mcu" where
  "wdt_reset s = exec_op Wdt_reset s"

definition wdt_disable :: "mcu \<Rightarrow> mcu" where
  "wdt_disable s = s\<lparr>WDTCSR := 0, wdt_timer := 0\<rparr>"

text \<open>The constructor, lines 87 to 92.\<close>

definition Watchdog :: "uint16_t \<Rightarrow> mcu \<Rightarrow> mcu" where
  "Watchdog periodInSeconds s = (wdt_disable s)\<lparr>wdto := DeterminePeriod periodInSeconds\<rparr>"

definition power_all_disable :: "mcu \<Rightarrow> mcu" where
  "power_all_disable s = s\<lparr>peripherals_on := False\<rparr>"

definition power_all_enable :: "mcu \<Rightarrow> mcu" where
  "power_all_enable s = s\<lparr>peripherals_on := True\<rparr>"

definition set_sleep_mode :: "sleep_mode_t \<Rightarrow> mcu \<Rightarrow> mcu" where
  "set_sleep_mode m s = s\<lparr>sleep_sel := m\<rparr>"

definition sleep_enable :: "mcu \<Rightarrow> mcu" where
  "sleep_enable s = s\<lparr>sleep_en := True\<rparr>"

definition sleep_disable :: "mcu \<Rightarrow> mcu" where
  "sleep_disable s = s\<lparr>sleep_en := False\<rparr>"

text \<open>The CPU halts; one more entry into the low-power state is counted.\<close>

definition sleep_cpu :: "mcu \<Rightarrow> mcu" where
  "sleep_cpu s = s\<lparr>sleep_entries := sleep_entries s + 1\<rparr>"

text \<open>
  \<^verbatim>\<open>sleep_mode()\<close> enables sleep, halts the CPU and disables sleep once it is
  awake. The CPU is woken by the watchdog interrupt, and each wake is one firing of
  the handler: \<^verbatim>\<open>Sleep\<close> arms Interrupt Mode before every \<^verbatim>\<open>sleep_mode()\<close>.
\<close>

definition sleep_mode :: "mcu \<Rightarrow> mcu" where
  "sleep_mode s = sleep_disable (wdt_interrupt (sleep_cpu (sleep_enable s)))"

text \<open>The cycle count of \<^verbatim>\<open>Sleep\<close>, lines 97 to 107: an \<^verbatim>\<open>unsigned long long\<close>.\<close>

definition Sleep_ncycles :: "uint64_t \<Rightarrow> uint8_t \<Rightarrow> uint64_t" where
  "Sleep_ncycles periodInSeconds w =
     (if w = WDTO_8S then periodInSeconds div 8
      else if w = WDTO_4S then periodInSeconds div 4
      else if w = WDTO_2S then periodInSeconds div 2
      else periodInSeconds)"

text \<open>Lines 109 to 122: what \<^verbatim>\<open>Sleep\<close> does before its loop.\<close>

definition Sleep_prologue :: "mcu \<Rightarrow> mcu" where
  "Sleep_prologue s =
     (set_sleep_mode SLEEP_MODE_PWR_DOWN (power_all_disable (Configure True s)))
       \<lparr>sleepOrWaitCount := 0\<rparr>"

text \<open>Lines 126 to 137: one turn of the loop.\<close>

definition Sleep_body :: "mcu \<Rightarrow> mcu" where
  "Sleep_body s = Configure True (sleep_disable (sleep_mode s))"

text \<open>Lines 140 to 143: what \<^verbatim>\<open>Sleep\<close> does after its loop.\<close>

definition Sleep_epilogue :: "mcu \<Rightarrow> mcu" where
  "Sleep_epilogue s = Configure False (power_all_enable s)"

lemma Configure_eq:
  "Configure b s =
     s\<lparr> WDTCSR := wdps_of (wdto s) b, MCUSR := MCUSR s AND NOT (BV WDRF),
        irq_enabled := True, wdt_timer := 0 \<rparr>"
  by (simp add: Configure_def Configure_ops_def)

lemma ISR_WDT_count: "sleepOrWaitCount (ISR_WDT s) = sleepOrWaitCount s + 1"
  by (simp add: ISR_WDT_def Let_def Configure_eq)

lemma wdt_interrupt_count: "sleepOrWaitCount (wdt_interrupt s) = sleepOrWaitCount s + 1"
  by (simp add: wdt_interrupt_def reti_def ISR_WDT_count isr_entry_def)

lemma sleep_mode_count: "sleepOrWaitCount (sleep_mode s) = sleepOrWaitCount s + 1"
  by (simp add: sleep_mode_def sleep_disable_def wdt_interrupt_count sleep_cpu_def
      sleep_enable_def)

lemma Sleep_body_count: "sleepOrWaitCount (Sleep_body s) = sleepOrWaitCount s + 1"
  by (simp add: Sleep_body_def Configure_eq sleep_disable_def sleep_mode_count)

lemma unat_succ_below: "unat (a + 1) = Suc (unat a)" if "a < n" for a n :: uint64_t
  using that by unat_arith

text \<open>
  The loop of lines 124 to 138. It ends: each turn raises the counter by one, and
  the counter is below \<open>ncycles\<close> when a turn starts.
\<close>

function Sleep_loop :: "uint64_t \<Rightarrow> mcu \<Rightarrow> mcu" where
  "Sleep_loop ncycles s =
     (if sleepOrWaitCount s < ncycles then Sleep_loop ncycles (Sleep_body s) else s)"
  by pat_completeness auto
termination
proof (relation "measure (\<lambda>(ncycles, s). unat ncycles - unat (sleepOrWaitCount s))")
  show "wf (measure (\<lambda>(ncycles, s). unat ncycles - unat (sleepOrWaitCount s)))"
    by simp
next
  fix ncycles :: uint64_t and s :: mcu
  assume less: "sleepOrWaitCount s < ncycles"
  then have "unat (sleepOrWaitCount s) < unat ncycles"
    by (simp add: word_less_nat_alt)
  with less show "((ncycles, Sleep_body s), (ncycles, s))
      \<in> measure (\<lambda>(ncycles, s). unat ncycles - unat (sleepOrWaitCount s))"
    by (simp add: Sleep_body_count unat_succ_below [OF less])
qed

declare Sleep_loop.simps [simp del]

definition Sleep :: "uint64_t \<Rightarrow> mcu \<Rightarrow> mcu" where
  "Sleep periodInSeconds s =
     Sleep_epilogue (Sleep_loop (Sleep_ncycles periodInSeconds (wdto s)) (Sleep_prologue s))"

text \<open>
  The cycle count of \<^verbatim>\<open>Wait\<close>, lines 149 to 159: the same divisions, stored in
  an \<^verbatim>\<open>int\<close>, which keeps the low 16 bits of the quotient.
\<close>

definition Wait_ncycles :: "uint64_t \<Rightarrow> uint8_t \<Rightarrow> int16_t" where
  "Wait_ncycles periodInSeconds w =
     (if w = WDTO_8S then ucast (periodInSeconds div 8)
      else if w = WDTO_4S then ucast (periodInSeconds div 4)
      else if w = WDTO_2S then ucast (periodInSeconds div 2)
      else ucast periodInSeconds)"

text \<open>
  Lines 161 to 164. The assignment of the \<^verbatim>\<open>int\<close> to the
  \<^verbatim>\<open>unsigned long long\<close> target extends its sign.
\<close>

definition Wait :: "uint64_t \<Rightarrow> mcu \<Rightarrow> mcu" where
  "Wait periodInSeconds s =
     Configure True
       (s\<lparr> sleepOrWaitCount := 0,
           waitTotal := scast (Wait_ncycles periodInSeconds (wdto s)) \<rparr>)"

text \<open>Lines 167 to 188: the three conditionals of \<^verbatim>\<open>Reset\<close>, in order.\<close>

definition Reset :: "uint16_t \<Rightarrow> mcu \<Rightarrow> mcu" where
  "Reset periodInSeconds s =
     (let s1 = (if WDTCSR s AND BV WDE \<noteq> 0 \<or> MCUSR s AND BV WDRF \<noteq> 0
                then wdt_reset s else s);
          s2 = (if periodInSeconds \<noteq> 0
                then Configure False
                       (s1\<lparr>wdto := DeterminePeriod periodInSeconds, waitTotal := 0\<rparr>)
                else s1)
      in if waitTotal s2 \<noteq> 0 then Configure False (s2\<lparr>waitTotal := 0\<rparr>) else s2)"

subsection \<open>Scenarios\<close>

text \<open>
  The scenario of the spec: the controller is constructed with 0, \<^verbatim>\<open>Wait(20)\<close> is
  called and one expiry has been served. This is the state in which the handler
  starts to run at the second expiry.
\<close>

definition wait20_second_firing :: mcu where
  "wait20_second_firing = isr_entry (wdt_interrupt (Wait 20 (Watchdog 0 boot_state)))"

text \<open>
  The controller is constructed with 0, \<^verbatim>\<open>Reset()\<close> clears the initial target and
  \<^verbatim>\<open>Sleep\<close> has armed the watchdog and halted the CPU. This is the state in which
  the handler starts to run at the first expiry.
\<close>

definition sleep_first_firing :: mcu where
  "sleep_first_firing =
     isr_entry (sleep_cpu (sleep_enable (Sleep_prologue (Reset 0 (Watchdog 0 boot_state)))))"

text \<open>
  The controller is constructed with 0 and \<^verbatim>\<open>Wait(3)\<close> is called: with the 8-second
  step the target is 0 and the watchdog is armed in Interrupt Mode.
\<close>

definition wait3_armed :: mcu where
  "wait3_armed = Wait 3 (Watchdog 0 boot_state)"

text \<open>
  The state in which the handler starts to run at the first expiry after
  \<^verbatim>\<open>Wait(20)\<close>: the hardware has cleared the interrupt flag.
\<close>

definition wait20_first_firing :: mcu where
  "wait20_first_firing = isr_entry (Wait 20 (Watchdog 0 boot_state))"

text \<open>
  \<^verbatim>\<open>Sleep\<close> is the first call of the program: the state when the CPU has been
  woken for the first time, after the handler and before the loop re-arms.
\<close>

definition first_wake :: mcu where
  "first_wake = wdt_interrupt (sleep_cpu (sleep_enable (Sleep_prologue boot_state)))"

subsection \<open>The steps of a Sleep sequence\<close>

text \<open>
  The loop of \<^verbatim>\<open>Sleep\<close> as a step relation between its control points: the loop
  tests its condition, the CPU is in the low-power state, the CPU has been woken
  (the handler has run, the loop has not yet re-armed), and \<^verbatim>\<open>Sleep\<close> has
  returned. \<open>Enter\<close>, \<open>Rearm\<close> and \<open>Leave\<close> are actions of the foreground;
  \<open>Expire\<close> is an expiry of the watchdog with the handler's run.
\<close>

datatype sleep_pc = LoopTest | Asleep | Woken | Returned

inductive sleep_step :: "uint64_t \<Rightarrow> sleep_pc \<times> mcu \<Rightarrow> sleep_pc \<times> mcu \<Rightarrow> bool"
  for ncycles :: uint64_t where
  Enter: "sleepOrWaitCount s < ncycles \<Longrightarrow>
      sleep_step ncycles (LoopTest, s) (Asleep, sleep_cpu (sleep_enable s))"
| Expire: "sleep_step ncycles (Asleep, s) (Woken, wdt_interrupt s)"
| Rearm: "sleep_step ncycles (Woken, s) (LoopTest, Configure True (sleep_disable (sleep_disable s)))"
| Leave: "\<not> sleepOrWaitCount s < ncycles \<Longrightarrow>
      sleep_step ncycles (LoopTest, s) (Returned, Sleep_epilogue s)"

text \<open>The configurations a \<^verbatim>\<open>Sleep\<close> called in state \<open>s\<close> goes through.\<close>

definition sleep_reach :: "uint64_t \<Rightarrow> mcu \<Rightarrow> sleep_pc \<times> mcu \<Rightarrow> bool" where
  "sleep_reach ncycles s c = (sleep_step ncycles)\<^sup>*\<^sup>* (LoopTest, Sleep_prologue s) c"

text \<open>
  What holds of the Operating Mode at each control point: Interrupt Mode where the
  loop tests its condition and where the CPU is in the low-power state, Reset Mode
  once \<^verbatim>\<open>Sleep\<close> has returned, and nothing where the CPU has just been woken.
\<close>

definition sleep_inv :: "sleep_pc \<times> mcu \<Rightarrow> bool" where
  "sleep_inv c =
     (case fst c of
        LoopTest \<Rightarrow> hw_mode (snd c) = InterruptMode
      | Asleep \<Rightarrow> hw_mode (snd c) = InterruptMode
      | Woken \<Rightarrow> True
      | Returned \<Rightarrow> hw_mode (snd c) = ResetMode)"

subsection \<open>Histories of calls\<close>

text \<open>
  The public operations as the sketch calls them, one after the other from the
  state at program start.
\<close>

datatype call =
  Call_Watchdog uint16_t
  | Call_Configure bool
  | Call_Sleep uint64_t
  | Call_Wait uint64_t
  | Call_Reset uint16_t

fun do_call :: "call \<Rightarrow> mcu \<Rightarrow> mcu" where
  "do_call (Call_Watchdog p) s = Watchdog p s"
| "do_call (Call_Configure b) s = Configure b s"
| "do_call (Call_Sleep d) s = Sleep d s"
| "do_call (Call_Wait d) s = Wait d s"
| "do_call (Call_Reset p) s = Reset p s"

fun run_calls :: "call list \<Rightarrow> mcu \<Rightarrow> mcu" where
  "run_calls [] s = s"
| "run_calls (c # cs) s = run_calls cs (do_call c s)"

fun is_Wait_or_Reset :: "call \<Rightarrow> bool" where
  "is_Wait_or_Reset (Call_Wait d) = True"
| "is_Wait_or_Reset (Call_Reset p) = True"
| "is_Wait_or_Reset _ = False"

fun is_Sleep :: "call \<Rightarrow> bool" where
  "is_Sleep (Call_Sleep d) = True"
| "is_Sleep _ = False"

section \<open>Properties of the Period Quantizer\<close>

lemma stepSeconds_simps [simp]:
  "stepSeconds WDTO_8S = 8" "stepSeconds WDTO_4S = 4" "stepSeconds WDTO_2S = 2" "stepSeconds WDTO_1S = 1"
  by (simp_all add: stepSeconds_def WDTO_1S_def WDTO_2S_def WDTO_4S_def WDTO_8S_def)

lemma DeterminePeriod_cases:
  "DeterminePeriod s =
     (if unat s = 0 \<or> 8 \<le> unat s then WDTO_8S else if 4 \<le> unat s then WDTO_4S
      else if 2 \<le> unat s then WDTO_2S else WDTO_1S)"
  by (simp add: DeterminePeriod_def word_le_nat_alt unat_eq_0)

text \<open>
  Claim C1. For every request \<open>s\<close>, \<^verbatim>\<open>DeterminePeriod(s)\<close> is one of the four
  steps of 1, 2, 4 and 8 seconds. A request of 0 gives the 8-second step. A request
  other than 0 gives the largest of the four steps that does not exceed it: the
  step returned lasts at most \<open>s\<close> seconds, and every supported step that lasts at
  most \<open>s\<close> seconds lasts at most as long as the one returned. The smallest step is
  what the cascade falls through to: a request that is not 0 and below 2 gives the
  1-second step (0, the only request below the smallest step, has its own rule).
  In particular 3 gives the 2-second step, 0 the 8-second step and 9 the 8-second
  step.
\<close>

theorem DeterminePeriod_largest_step:
  "DeterminePeriod s \<in> supported_steps
   \<and> (s = 0 \<longrightarrow> DeterminePeriod s = WDTO_8S)
   \<and> (s \<noteq> 0 \<longrightarrow>
         stepSeconds (DeterminePeriod s) \<le> unat s
         \<and> (\<forall>w \<in> supported_steps.
               stepSeconds w \<le> unat s \<longrightarrow> stepSeconds w \<le> stepSeconds (DeterminePeriod s)))
   \<and> (s \<noteq> 0 \<and> unat s < 2 \<longrightarrow> DeterminePeriod s = WDTO_1S)
   \<and> DeterminePeriod 3 = WDTO_2S \<and> DeterminePeriod 0 = WDTO_8S \<and> DeterminePeriod 9 = WDTO_8S"
proof -
  have nz: "s \<noteq> 0 \<longrightarrow> unat s \<noteq> 0"
    by (simp add: unat_eq_0)
  have "DeterminePeriod s \<in> supported_steps"
    by (simp add: DeterminePeriod_cases supported_steps_def)
  moreover have "s = 0 \<longrightarrow> DeterminePeriod s = WDTO_8S"
    by (simp add: DeterminePeriod_cases)
  moreover have "s \<noteq> 0 \<longrightarrow> stepSeconds (DeterminePeriod s) \<le> unat s"
    using nz by (auto simp add: DeterminePeriod_cases)
  moreover have "s \<noteq> 0 \<longrightarrow> (\<forall>w \<in> supported_steps.
      stepSeconds w \<le> unat s \<longrightarrow> stepSeconds w \<le> stepSeconds (DeterminePeriod s))"
    by (auto simp add: DeterminePeriod_cases supported_steps_def)
  moreover have "s \<noteq> 0 \<and> unat s < 2 \<longrightarrow> DeterminePeriod s = WDTO_1S"
    using nz by (auto simp add: DeterminePeriod_cases)
  moreover have "DeterminePeriod 3 = WDTO_2S" "DeterminePeriod 0 = WDTO_8S"
    "DeterminePeriod 9 = WDTO_8S"
    by (simp_all add: DeterminePeriod_def)
  ultimately show ?thesis
    by blast
qed

theorem DeterminePeriod_largest_step_witness:
  "(3 :: uint16_t) \<noteq> 0 \<and> DeterminePeriod 3 = WDTO_2S \<and> WDTO_2S \<in> supported_steps
   \<and> stepSeconds WDTO_2S \<le> unat (3 :: uint16_t)
   \<and> stepSeconds (DeterminePeriod 3) \<le> unat (3 :: uint16_t)
   \<and> stepSeconds WDTO_2S \<le> stepSeconds (DeterminePeriod 3)
   \<and> \<not> stepSeconds WDTO_4S \<le> unat (3 :: uint16_t)
   \<and> (1 :: uint16_t) \<noteq> 0 \<and> unat (1 :: uint16_t) < 2 \<and> DeterminePeriod 1 = WDTO_1S"
  using DeterminePeriod_largest_step [of 3] DeterminePeriod_largest_step [of 1]
  by (simp add: supported_steps_def)

text \<open>
  Claim C7, as stated, fails: the request 0 gives the 8-second step and the larger
  request 1 gives the 1-second step.
\<close>

theorem DeterminePeriod_not_monotone_at_zero:
  "(0 :: uint16_t) \<le> 1
   \<and> \<not> stepSeconds (DeterminePeriod 0) \<le> stepSeconds (DeterminePeriod 1)
   \<and> \<not> DeterminePeriod 0 \<le> DeterminePeriod 1"
  by (simp add: DeterminePeriod_cases) (simp add: WDTO_1S_def WDTO_8S_def)

text \<open>
  Claim C7, amended. \<^verbatim>\<open>DeterminePeriod\<close> is monotonic non-decreasing on the
  requests other than 0: for \<open>s1 \<le> s2\<close> with \<open>s1\<close> not 0, the step returned for
  \<open>s1\<close> is at most the step returned for \<open>s2\<close>, in seconds and as a timeout code.
\<close>

theorem DeterminePeriod_mono_nonzero:
  "s1 \<noteq> 0 \<Longrightarrow> s1 \<le> s2 \<Longrightarrow>
     stepSeconds (DeterminePeriod s1) \<le> stepSeconds (DeterminePeriod s2)
     \<and> DeterminePeriod s1 \<le> DeterminePeriod s2"
proof -
  assume "s1 \<noteq> 0" and "s1 \<le> s2"
  then have "0 < unat s1" and "unat s1 \<le> unat s2"
    by (simp_all add: unat_gt_0 word_le_nat_alt)
  then show ?thesis
    by (auto simp add: DeterminePeriod_cases WDTO_1S_def WDTO_2S_def WDTO_4S_def WDTO_8S_def stepSeconds_def)
qed

theorem DeterminePeriod_mono_nonzero_witness:
  "(3 :: uint16_t) \<noteq> 0 \<and> (3 :: uint16_t) \<le> 9
   \<and> stepSeconds (DeterminePeriod 3) \<le> stepSeconds (DeterminePeriod 9)
   \<and> DeterminePeriod 3 \<le> DeterminePeriod 9
   \<and> DeterminePeriod 3 = WDTO_2S \<and> DeterminePeriod 9 = WDTO_8S"
  using DeterminePeriod_mono_nonzero [of 3 9]
  by (simp add: DeterminePeriod_def)

section \<open>Properties of the Hardware Programmer and the Interrupt Handler\<close>

lemma and_BV: "(w AND BV n \<noteq> 0) = bit w n"
  by (simp add: BV_def and_exp_eq_0_iff_not_bit)

lemma bit_BV: "bit (BV k) n = (n = k \<and> k < 8)"
  by (auto simp add: BV_def bit_simps)

lemma bit_wdps_WDIE: "bit (wdps_of w b) WDIE = b"
  by (simp add: wdps_of_def bit_or_iff bit_BV WDIE_def WDE_def WDP0_def WDP1_def WDP2_def WDP3_def)

lemma bit_wdps_WDE: "bit (wdps_of w b) WDE"
  by (simp add: wdps_of_def bit_or_iff bit_BV WDIE_def WDE_def WDP0_def WDP1_def WDP2_def WDP3_def)

lemma mode_of_wdps: "mode_of (wdps_of w b) = (if b then InterruptMode else ResetMode)"
  by (simp add: mode_of_def and_BV bit_wdps_WDIE bit_wdps_WDE)

lemma hw_mode_Configure: "hw_mode (Configure b s) = (if b then InterruptMode else ResetMode)"
  by (simp add: hw_mode_def Configure_eq mode_of_wdps)

lemma ISR_WDT_waitTotal: "waitTotal (ISR_WDT s) = waitTotal s"
  by (simp add: ISR_WDT_def Let_def Configure_eq)

lemma ISR_WDT_wdto: "wdto (ISR_WDT s) = wdto s"
  by (simp add: ISR_WDT_def Let_def Configure_eq)


lemmas hw_defs = Configure_eq wdps_of_def isr_entry_def reti_def wdt_interrupt_def ISR_WDT_def
  Let_def wdt_disable_def Watchdog_def Wait_def Wait_ncycles_def boot_state_def
  DeterminePeriod_def hw_mode_def mode_of_def wdt_reset_def
  power_all_disable_def power_all_enable_def set_sleep_mode_def sleep_enable_def
  sleep_disable_def sleep_cpu_def sleep_mode_def Sleep_prologue_def Sleep_body_def
  Sleep_epilogue_def Reset_def

lemma wait20_second_firing_eq:
  "wait20_second_firing =
     \<lparr> wdto = WDTO_8S, sleepOrWaitCount = 1, waitTotal = 2,
       WDTCSR = 0x29, MCUSR = 0, irq_enabled = False, wdt_timer = 0,
       peripherals_on = True, sleep_sel = SLEEP_MODE_IDLE, sleep_en = False,
       sleep_entries = 0 \<rparr>"
  by (simp add: wait20_second_firing_def hw_defs avr_consts)

text \<open>
  Claim C2, as stated, fails. At the second expiry after \<^verbatim>\<open>Wait(20)\<close> with the
  8-second step the incremented counter equals the target 2; the handler programs
  Reset Mode, and the target is still 2 when it returns: the handler never writes
  \<^verbatim>\<open>_waitTotal\<close>.
\<close>

theorem ISR_WDT_leaves_target_set:
  "sleepOrWaitCount wait20_second_firing + 1 = waitTotal wait20_second_firing
   \<and> waitTotal wait20_second_firing \<noteq> 0
   \<and> hw_mode (ISR_WDT wait20_second_firing) = ResetMode
   \<and> waitTotal (ISR_WDT wait20_second_firing) = 2
   \<and> waitTotal (ISR_WDT wait20_second_firing) \<noteq> 0"
  by (simp add: wait20_second_firing_eq ISR_WDT_waitTotal) (simp add: hw_defs avr_consts)

text \<open>
  Claim C2, amended. When the handler fires and the incremented Cycle Counter equals
  a non-zero Target Cycle Count, the handler programs Reset Mode: it is
  \<^verbatim>\<open>Configure()\<close> on the state with the counter at the target. The Target Cycle
  Count is left as it was.
\<close>

theorem ISR_WDT_target_reached:
  "sleepOrWaitCount s + 1 = waitTotal s \<Longrightarrow> waitTotal s \<noteq> 0 \<Longrightarrow>
     hw_mode (ISR_WDT s) = ResetMode
     \<and> ISR_WDT s = Configure False (s\<lparr>sleepOrWaitCount := waitTotal s\<rparr>)
     \<and> waitTotal (ISR_WDT s) = waitTotal s"
  by (simp add: ISR_WDT_def Let_def hw_mode_Configure) (simp add: Configure_eq)

theorem ISR_WDT_target_reached_witness:
  "sleepOrWaitCount wait20_second_firing + 1 = waitTotal wait20_second_firing
   \<and> waitTotal wait20_second_firing \<noteq> 0
   \<and> hw_mode (ISR_WDT wait20_second_firing) = ResetMode
   \<and> waitTotal (ISR_WDT wait20_second_firing) = waitTotal wait20_second_firing
   \<and> waitTotal wait20_second_firing = 2"
proof -
  have reached: "sleepOrWaitCount wait20_second_firing + 1 = waitTotal wait20_second_firing"
    and pending: "waitTotal wait20_second_firing \<noteq> 0"
    and two: "waitTotal wait20_second_firing = 2"
    by (simp_all add: wait20_second_firing_eq)
  from ISR_WDT_target_reached [OF reached pending] reached pending two
  show ?thesis by blast
qed

lemma sleep_first_firing_eq:
  "sleep_first_firing =
     \<lparr> wdto = WDTO_8S, sleepOrWaitCount = 0, waitTotal = 0,
       WDTCSR = 0x29, MCUSR = 0, irq_enabled = False, wdt_timer = 0,
       peripherals_on = False, sleep_sel = SLEEP_MODE_PWR_DOWN, sleep_en = True,
       sleep_entries = 1 \<rparr>"
  by (simp add: sleep_first_firing_def hw_defs avr_consts)

text \<open>
  Claim C3, as stated, fails. At the first expiry of a \<^verbatim>\<open>Sleep\<close> with no target
  pending the handler increments the counter and does nothing else: it writes no
  register, and the mode it leaves is the Reset Mode the expiry has put the
  hardware in, not Interrupt Mode.
\<close>

theorem ISR_WDT_does_not_rearm:
  "waitTotal sleep_first_firing = 0
   \<and> ISR_WDT sleep_first_firing = sleep_first_firing\<lparr>sleepOrWaitCount := 1\<rparr>
   \<and> hw_mode (ISR_WDT sleep_first_firing) = ResetMode
   \<and> hw_mode (ISR_WDT sleep_first_firing) \<noteq> InterruptMode"
  by (simp add: sleep_first_firing_eq ISR_WDT_def hw_mode_def mode_of_def avr_consts)

text \<open>
  Claim C3, amended. For every firing of the handler while the Target Cycle Count is
  zero, the handler only increments the Cycle Counter and leaves the watchdog's
  registers as they are. Interrupt Mode is re-armed by the loop of \<^verbatim>\<open>Sleep\<close>:
  after each turn of the loop the mode is Interrupt Mode and the counter is one
  higher, so the sleeping loop keeps being woken once per Timeout Step.
\<close>

theorem ISR_WDT_no_target:
  "waitTotal s = 0 \<Longrightarrow>
     ISR_WDT s = s\<lparr>sleepOrWaitCount := sleepOrWaitCount s + 1\<rparr>
     \<and> WDTCSR (ISR_WDT s) = WDTCSR s
     \<and> hw_mode (Sleep_body s) = InterruptMode
     \<and> sleepOrWaitCount (Sleep_body s) = sleepOrWaitCount s + 1"
  by (simp add: ISR_WDT_def Sleep_body_count) (simp add: Sleep_body_def hw_mode_Configure)

theorem ISR_WDT_no_target_witness:
  "waitTotal sleep_first_firing = 0
   \<and> ISR_WDT sleep_first_firing = sleep_first_firing\<lparr>sleepOrWaitCount := 0 + 1\<rparr>
   \<and> WDTCSR (ISR_WDT sleep_first_firing) = 0x29
   \<and> hw_mode (Sleep_body sleep_first_firing) = InterruptMode"
proof -
  have none: "waitTotal sleep_first_firing = 0"
    and regs: "WDTCSR sleep_first_firing = 0x29" "sleepOrWaitCount sleep_first_firing = 0"
    by (simp_all add: sleep_first_firing_eq)
  from ISR_WDT_no_target [OF none] none regs show ?thesis
    by simp
qed

section \<open>Properties of Reset\<close>

lemma wait3_armed_eq:
  "wait3_armed =
     \<lparr> wdto = WDTO_8S, sleepOrWaitCount = 0, waitTotal = 0,
       WDTCSR = 0x69, MCUSR = 0, irq_enabled = True, wdt_timer = 0,
       peripherals_on = True, sleep_sel = SLEEP_MODE_IDLE, sleep_en = False,
       sleep_entries = 0 \<rparr>"
  by (simp add: wait3_armed_def hw_defs avr_consts)

text \<open>
  Claim C6, as stated, fails. After \<^verbatim>\<open>Wait(3)\<close> with the 8-second step the target
  is 0 and the mode is Interrupt Mode; \<^verbatim>\<open>Reset()\<close> finds no pending target, does
  not call \<^verbatim>\<open>Configure\<close>, and leaves Interrupt Mode.
\<close>

theorem Reset_keeps_Interrupt_Mode:
  "hw_mode (Reset 0 wait3_armed) = InterruptMode
   \<and> hw_mode (Reset 0 wait3_armed) \<noteq> ResetMode
   \<and> waitTotal wait3_armed = 0"
  by (simp add: wait3_armed_eq) (simp add: hw_defs avr_consts)

text \<open>
  Claim C6, amended. For every prior state, \<^verbatim>\<open>Reset()\<close> with no arguments leaves
  the Target Cycle Count at zero. When a target was pending (not zero) on entry, it
  leaves the hardware in Reset Mode. When no target was pending, it leaves WDTCSR,
  and with it the Operating Mode, as it was.
\<close>

theorem Reset_no_arguments:
  "waitTotal (Reset 0 s) = 0
   \<and> (waitTotal s \<noteq> 0 \<longrightarrow> hw_mode (Reset 0 s) = ResetMode)
   \<and> (waitTotal s = 0 \<longrightarrow> WDTCSR (Reset 0 s) = WDTCSR s \<and> hw_mode (Reset 0 s) = hw_mode s)"
  by (simp add: Reset_def Let_def hw_mode_Configure wdt_reset_def)
    (simp add: Configure_eq hw_mode_def)

theorem Reset_no_arguments_witness:
  "waitTotal wait20_second_firing \<noteq> 0
   \<and> waitTotal (Reset 0 wait20_second_firing) = 0
   \<and> hw_mode (Reset 0 wait20_second_firing) = ResetMode
   \<and> waitTotal wait3_armed = 0
   \<and> WDTCSR (Reset 0 wait3_armed) = WDTCSR wait3_armed"
proof -
  have pending: "waitTotal wait20_second_firing \<noteq> 0"
    by (simp add: wait20_second_firing_eq)
  have none: "waitTotal wait3_armed = 0"
    by (simp add: wait3_armed_eq)
  from Reset_no_arguments [of wait20_second_firing] Reset_no_arguments [of wait3_armed]
    pending none
  show ?thesis by blast
qed

section \<open>Properties of Configure\<close>

lemma wait20_first_firing_eq:
  "wait20_first_firing =
     \<lparr> wdto = WDTO_8S, sleepOrWaitCount = 0, waitTotal = 2,
       WDTCSR = 0x29, MCUSR = 0, irq_enabled = False, wdt_timer = 0,
       peripherals_on = True, sleep_sel = SLEEP_MODE_IDLE, sleep_en = False,
       sleep_entries = 0 \<rparr>"
  by (simp add: wait20_first_firing_def hw_defs avr_consts)

text \<open>
  Claim C8, as stated, fails. The handler calls \<^verbatim>\<open>Configure(true)\<close> with the
  interrupt flag cleared, as the hardware leaves it on entry to a handler; on
  return from \<^verbatim>\<open>Configure\<close> the flag is set, not restored.
\<close>

theorem Configure_enables_interrupts:
  "\<not> irq_enabled wait20_first_firing
   \<and> irq_enabled (Configure True wait20_first_firing)
   \<and> irq_enabled (Configure True wait20_first_firing) \<noteq> irq_enabled wait20_first_firing"
  by (simp add: wait20_first_firing_eq Configure_eq)

text \<open>
  Claim C8, amended. For both argument values, every write to WDTCSR in
  \<^verbatim>\<open>Configure\<close> (the unlock and the configuration write) happens with the
  interrupt flag cleared, and \<^verbatim>\<open>Configure\<close> returns with the flag set: this is the
  prior state when interrupts were enabled on entry. Nothing changes but WDTCSR,
  the WDRF bit of MCUSR, the interrupt flag and the watchdog's timer.
\<close>

theorem Configure_frame:
  "(\<forall>(x, t) \<in> set (op_states (Configure_ops b s) s). is_WDTCSR_write x \<longrightarrow> \<not> irq_enabled t)
   \<and> irq_enabled (Configure b s)
   \<and> (irq_enabled s \<longrightarrow> irq_enabled (Configure b s) = irq_enabled s)
   \<and> Configure b s =
       s\<lparr> WDTCSR := wdps_of (wdto s) b, MCUSR := MCUSR s AND NOT (BV WDRF),
          irq_enabled := True, wdt_timer := 0 \<rparr>"
  by (simp add: Configure_eq) (simp add: Configure_ops_def)

theorem Configure_frame_witness:
  "map (\<lambda>(x, t). (x, irq_enabled t)) (op_states (Configure_ops True boot_state) boot_state) =
       [(NoInterrupts, True), (MCUSR_and 0xF7, False), (WDTCSR_write 0x18, False),
        (WDTCSR_write 0x69, False), (Interrupts, False), (Wdt_reset, True)]
   \<and> irq_enabled boot_state
   \<and> irq_enabled (Configure True boot_state) = irq_enabled boot_state
   \<and> Configure True boot_state = boot_state\<lparr>WDTCSR := 0x69, wdt_timer := 0\<rparr>"
  using Configure_frame [of True boot_state]
  by (simp add: Configure_ops_def boot_state_def wdps_of_def avr_consts)

section \<open>Properties of Sleep and Wait\<close>

lemma wdt_interrupt_waitTotal: "waitTotal (wdt_interrupt s) = waitTotal s"
  by (simp add: wdt_interrupt_def reti_def ISR_WDT_waitTotal isr_entry_def)

lemma wdt_interrupt_wdto: "wdto (wdt_interrupt s) = wdto s"
  by (simp add: wdt_interrupt_def reti_def ISR_WDT_wdto isr_entry_def)


lemma Sleep_body_waitTotal: "waitTotal (Sleep_body s) = waitTotal s"
  by (simp add: Sleep_body_def Configure_eq sleep_disable_def sleep_mode_def
      wdt_interrupt_waitTotal sleep_cpu_def sleep_enable_def)

lemma Sleep_body_wdto: "wdto (Sleep_body s) = wdto s"
  by (simp add: Sleep_body_def Configure_eq sleep_disable_def sleep_mode_def
      wdt_interrupt_wdto sleep_cpu_def sleep_enable_def)


lemma Sleep_loop_waitTotal: "waitTotal (Sleep_loop n s) = waitTotal s"
proof (induction n s rule: Sleep_loop.induct)
  case (1 ncycles s)
  show ?case
  proof (cases "sleepOrWaitCount s < ncycles")
    case True
    with "1" show ?thesis
      by (subst Sleep_loop.simps) (simp add: Sleep_body_waitTotal)
  next
    case False
    then show ?thesis
      by (subst Sleep_loop.simps) simp
  qed
qed

lemma Sleep_waitTotal: "waitTotal (Sleep d s) = waitTotal s"
  by (simp add: Sleep_def Sleep_epilogue_def Configure_eq power_all_enable_def
      Sleep_loop_waitTotal)
    (simp add: Sleep_prologue_def set_sleep_mode_def power_all_disable_def Configure_eq)

lemma do_call_waitTotal: "\<not> is_Wait_or_Reset c \<Longrightarrow> waitTotal (do_call c s) = waitTotal s"
  by (cases c) (simp_all add: Watchdog_def wdt_disable_def Configure_eq Sleep_waitTotal)

lemma run_calls_waitTotal:
  "\<forall>c \<in> set cs. \<not> is_Wait_or_Reset c \<Longrightarrow> waitTotal (run_calls cs s) = waitTotal s"
  by (induction cs arbitrary: s) (simp_all add: do_call_waitTotal)

lemma do_call_count:
  "\<not> is_Wait_or_Reset c \<Longrightarrow> \<not> is_Sleep c \<Longrightarrow>
     sleepOrWaitCount (do_call c s) = sleepOrWaitCount s"
  by (cases c) (simp_all add: Watchdog_def wdt_disable_def Configure_eq)

lemma run_calls_count:
  "\<forall>c \<in> set cs. \<not> is_Wait_or_Reset c \<and> \<not> is_Sleep c \<Longrightarrow>
     sleepOrWaitCount (run_calls cs s) = sleepOrWaitCount s"
  by (induction cs arbitrary: s) (simp_all add: do_call_count)

lemma ISR_WDT_initial:
  "sleepOrWaitCount s = 0 \<Longrightarrow> waitTotal s = 1 \<Longrightarrow>
     sleepOrWaitCount (ISR_WDT s) = 1
     \<and> ISR_WDT s = Configure False (s\<lparr>sleepOrWaitCount := 1\<rparr>)
     \<and> hw_mode (ISR_WDT s) = ResetMode"
  by (simp add: ISR_WDT_def hw_mode_Configure) (simp add: Configure_eq)

lemma isr_entry_fields:
  "sleepOrWaitCount (isr_entry s) = sleepOrWaitCount s"
  "waitTotal (isr_entry s) = waitTotal s"
  by (simp_all add: isr_entry_def)

lemma hw_mode_reti: "hw_mode (reti s) = hw_mode s"
  by (simp add: hw_mode_def reti_def)

lemma first_firing_in_Sleep:
  "waitTotal s = 1 \<Longrightarrow>
     sleepOrWaitCount (wdt_interrupt (sleep_cpu (sleep_enable (Sleep_prologue s)))) = 1
     \<and> hw_mode (wdt_interrupt (sleep_cpu (sleep_enable (Sleep_prologue s)))) = ResetMode"
proof -
  assume one: "waitTotal s = 1"
  let ?t = "isr_entry (sleep_cpu (sleep_enable (Sleep_prologue s)))"
  have "sleepOrWaitCount ?t = 0" "waitTotal ?t = 1"
    using one
    by (simp_all add: isr_entry_fields sleep_cpu_def sleep_enable_def Sleep_prologue_def
        set_sleep_mode_def power_all_disable_def Configure_eq)
  then have "sleepOrWaitCount (ISR_WDT ?t) = 1 \<and> hw_mode (ISR_WDT ?t) = ResetMode"
    using ISR_WDT_initial [of ?t] by blast
  then show ?thesis
    by (simp add: wdt_interrupt_def hw_mode_reti) (simp add: reti_def)
qed

text \<open>
  Claim C10, as stated, fails. The controller is constructed and \<^verbatim>\<open>Reset()\<close> is
  called; \<^verbatim>\<open>Wait\<close> is not. \<^verbatim>\<open>Reset()\<close> finds the initial target 1 pending
  and clears it. \<^verbatim>\<open>Sleep\<close> then arms Interrupt Mode, and at the first firing the
  handler increments the counter to 1, which is not the target 0: it only
  increments, and does not call \<^verbatim>\<open>Configure()\<close>.
\<close>

theorem first_firing_after_Reset:
  "run_calls [Call_Watchdog 0, Call_Reset 0] boot_state = Reset 0 (Watchdog 0 boot_state)
   \<and> waitTotal (Reset 0 (Watchdog 0 boot_state)) = 0
   \<and> hw_mode (sleep_cpu (sleep_enable (Sleep_prologue (Reset 0 (Watchdog 0 boot_state)))))
       = InterruptMode
   \<and> sleepOrWaitCount (ISR_WDT sleep_first_firing) = 1
   \<and> waitTotal (ISR_WDT sleep_first_firing) = 0
   \<and> sleepOrWaitCount (ISR_WDT sleep_first_firing) \<noteq> waitTotal (ISR_WDT sleep_first_firing)
   \<and> ISR_WDT sleep_first_firing = sleep_first_firing\<lparr>sleepOrWaitCount := 1\<rparr>
   \<and> ISR_WDT sleep_first_firing \<noteq> Configure False (sleep_first_firing\<lparr>sleepOrWaitCount := 1\<rparr>)"
proof -
  have "hw_mode (sleep_cpu (sleep_enable (Sleep_prologue (Reset 0 (Watchdog 0 boot_state)))))
      = InterruptMode"
    by (simp add: hw_mode_def sleep_cpu_def sleep_enable_def Sleep_prologue_def
        set_sleep_mode_def power_all_disable_def Configure_eq mode_of_wdps)
  moreover have "waitTotal (Reset 0 (Watchdog 0 boot_state)) = 0"
    by (simp add: hw_defs)
  moreover have handler: "ISR_WDT sleep_first_firing = sleep_first_firing\<lparr>sleepOrWaitCount := 1\<rparr>"
    by (simp add: sleep_first_firing_eq ISR_WDT_def)
  moreover have "irq_enabled (Configure False (sleep_first_firing\<lparr>sleepOrWaitCount := 1\<rparr>))"
    "\<not> irq_enabled (sleep_first_firing\<lparr>sleepOrWaitCount := 1\<rparr>)"
    by (simp_all add: Configure_eq sleep_first_firing_eq)
  then have "sleep_first_firing\<lparr>sleepOrWaitCount := 1\<rparr>
      \<noteq> Configure False (sleep_first_firing\<lparr>sleepOrWaitCount := 1\<rparr>)"
    by metis
  moreover have "sleepOrWaitCount (sleep_first_firing\<lparr>sleepOrWaitCount := 1\<rparr>) = 1"
    "waitTotal (sleep_first_firing\<lparr>sleepOrWaitCount := 1\<rparr>) = 0"
    by (simp_all add: sleep_first_firing_eq)
  ultimately show ?thesis
    by simp
qed

text \<open>
  Claim C10, amended. At program start the Cycle Counter is 0 and the Target Cycle
  Count is 1, not 0. After any calls of the constructor, \<^verbatim>\<open>Configure\<close> and
  \<^verbatim>\<open>Sleep\<close>, that is before any call to \<^verbatim>\<open>Wait\<close> or \<^verbatim>\<open>Reset\<close>, the target is
  still 1, and the first firing of the handler in a following \<^verbatim>\<open>Sleep\<close> raises
  the counter to 1 and ends in Reset Mode. After calls of the constructor and
  \<^verbatim>\<open>Configure\<close> alone no handler has fired and the counter is still 0: the first
  firing raises it to 1, which equals the target, and the handler is
  \<^verbatim>\<open>Configure()\<close>, which programs Reset Mode instead of re-arming. In every state
  with counter 0 and target 1 the handler does so. The constructor, \<^verbatim>\<open>Configure\<close>
  and \<^verbatim>\<open>Sleep\<close> (its prologue, every turn of its loop with the handler's firing,
  the whole call) leave the target as it was, so the initial or any stale target
  remains in effect during a \<^verbatim>\<open>Sleep\<close> sequence.
\<close>

theorem initial_target_until_Wait_or_Reset:
  "sleepOrWaitCount boot_state = 0 \<and> waitTotal boot_state = 1
   \<and> ((\<forall>c \<in> set cs. \<not> is_Wait_or_Reset c) \<longrightarrow>
        waitTotal (run_calls cs boot_state) = 1
        \<and> sleepOrWaitCount
            (wdt_interrupt (sleep_cpu (sleep_enable (Sleep_prologue (run_calls cs boot_state))))) = 1
        \<and> hw_mode
            (wdt_interrupt (sleep_cpu (sleep_enable (Sleep_prologue (run_calls cs boot_state)))))
            = ResetMode)
   \<and> ((\<forall>c \<in> set cs. \<not> is_Wait_or_Reset c \<and> \<not> is_Sleep c) \<longrightarrow>
        sleepOrWaitCount (run_calls cs boot_state) = 0
        \<and> sleepOrWaitCount (ISR_WDT (isr_entry (run_calls cs boot_state))) = 1
        \<and> ISR_WDT (isr_entry (run_calls cs boot_state)) =
            Configure False ((isr_entry (run_calls cs boot_state))\<lparr>sleepOrWaitCount := 1\<rparr>)
        \<and> hw_mode (wdt_interrupt (run_calls cs boot_state)) = ResetMode)
   \<and> (sleepOrWaitCount s = 0 \<and> waitTotal s = 1 \<longrightarrow>
        sleepOrWaitCount (ISR_WDT s) = 1
        \<and> ISR_WDT s = Configure False (s\<lparr>sleepOrWaitCount := 1\<rparr>)
        \<and> hw_mode (ISR_WDT s) = ResetMode)
   \<and> waitTotal (Watchdog p s) = waitTotal s
   \<and> waitTotal (Configure b s) = waitTotal s
   \<and> waitTotal (Sleep_prologue s) = waitTotal s
   \<and> waitTotal (Sleep_body s) = waitTotal s
   \<and> waitTotal (Sleep d s) = waitTotal s"
proof -
  have boot: "sleepOrWaitCount boot_state = 0" "waitTotal boot_state = 1"
    by (simp_all add: boot_state_def)
  have kept: "(\<forall>c \<in> set cs. \<not> is_Wait_or_Reset c) \<longrightarrow>
        waitTotal (run_calls cs boot_state) = 1
        \<and> sleepOrWaitCount
            (wdt_interrupt (sleep_cpu (sleep_enable (Sleep_prologue (run_calls cs boot_state))))) = 1
        \<and> hw_mode
            (wdt_interrupt (sleep_cpu (sleep_enable (Sleep_prologue (run_calls cs boot_state)))))
            = ResetMode"
  proof
    assume "\<forall>c \<in> set cs. \<not> is_Wait_or_Reset c"
    then have one: "waitTotal (run_calls cs boot_state) = 1"
      by (simp add: run_calls_waitTotal boot)
    with first_firing_in_Sleep [OF one] show "waitTotal (run_calls cs boot_state) = 1
        \<and> sleepOrWaitCount
            (wdt_interrupt (sleep_cpu (sleep_enable (Sleep_prologue (run_calls cs boot_state))))) = 1
        \<and> hw_mode
            (wdt_interrupt (sleep_cpu (sleep_enable (Sleep_prologue (run_calls cs boot_state)))))
            = ResetMode"
      by blast
  qed
  have first: "(\<forall>c \<in> set cs. \<not> is_Wait_or_Reset c \<and> \<not> is_Sleep c) \<longrightarrow>
        sleepOrWaitCount (run_calls cs boot_state) = 0
        \<and> sleepOrWaitCount (ISR_WDT (isr_entry (run_calls cs boot_state))) = 1
        \<and> ISR_WDT (isr_entry (run_calls cs boot_state)) =
            Configure False ((isr_entry (run_calls cs boot_state))\<lparr>sleepOrWaitCount := 1\<rparr>)
        \<and> hw_mode (wdt_interrupt (run_calls cs boot_state)) = ResetMode"
  proof
    let ?s = "run_calls cs boot_state"
    assume quiet: "\<forall>c \<in> set cs. \<not> is_Wait_or_Reset c \<and> \<not> is_Sleep c"
    then have zero: "sleepOrWaitCount ?s = 0"
      by (simp add: run_calls_count boot)
    from quiet have one: "waitTotal ?s = 1"
      by (simp add: run_calls_waitTotal boot)
    from zero one have "sleepOrWaitCount (isr_entry ?s) = 0" "waitTotal (isr_entry ?s) = 1"
      by (simp_all add: isr_entry_fields)
    then have fired: "sleepOrWaitCount (ISR_WDT (isr_entry ?s)) = 1
        \<and> ISR_WDT (isr_entry ?s) = Configure False ((isr_entry ?s)\<lparr>sleepOrWaitCount := 1\<rparr>)
        \<and> hw_mode (ISR_WDT (isr_entry ?s)) = ResetMode"
      by (rule ISR_WDT_initial)
    then have "hw_mode (ISR_WDT (isr_entry ?s)) = ResetMode"
      by blast
    then have "hw_mode (wdt_interrupt ?s) = ResetMode"
      by (simp add: wdt_interrupt_def hw_mode_reti)
    with zero fired show "sleepOrWaitCount ?s = 0
        \<and> sleepOrWaitCount (ISR_WDT (isr_entry ?s)) = 1
        \<and> ISR_WDT (isr_entry ?s) = Configure False ((isr_entry ?s)\<lparr>sleepOrWaitCount := 1\<rparr>)
        \<and> hw_mode (wdt_interrupt ?s) = ResetMode"
      by blast
  qed
  have handler: "sleepOrWaitCount s = 0 \<and> waitTotal s = 1 \<longrightarrow>
        sleepOrWaitCount (ISR_WDT s) = 1
        \<and> ISR_WDT s = Configure False (s\<lparr>sleepOrWaitCount := 1\<rparr>)
        \<and> hw_mode (ISR_WDT s) = ResetMode"
    using ISR_WDT_initial [of s] by blast
  have frame: "waitTotal (Watchdog p s) = waitTotal s" "waitTotal (Configure b s) = waitTotal s"
    "waitTotal (Sleep_prologue s) = waitTotal s"
    by (simp_all add: Watchdog_def wdt_disable_def Sleep_prologue_def set_sleep_mode_def
        power_all_disable_def Configure_eq)
  from boot kept first handler frame Sleep_body_waitTotal [of s] Sleep_waitTotal [of d s]
  show ?thesis
    by blast
qed

theorem initial_target_until_Wait_or_Reset_witness:
  "\<not> is_Wait_or_Reset (Call_Watchdog 0) \<and> \<not> is_Wait_or_Reset (Call_Configure True)
   \<and> \<not> is_Wait_or_Reset (Call_Sleep 16)
   \<and> \<not> is_Sleep (Call_Watchdog 0) \<and> \<not> is_Sleep (Call_Configure True)
   \<and> waitTotal (run_calls [Call_Watchdog 0, Call_Sleep 16] boot_state) = 1
   \<and> hw_mode (wdt_interrupt (sleep_cpu (sleep_enable (Sleep_prologue
        (run_calls [Call_Watchdog 0, Call_Sleep 16] boot_state))))) = ResetMode
   \<and> hw_mode (run_calls [Call_Watchdog 0, Call_Configure True] boot_state) = InterruptMode
   \<and> sleepOrWaitCount (run_calls [Call_Watchdog 0, Call_Configure True] boot_state) = 0
   \<and> sleepOrWaitCount
        (ISR_WDT (isr_entry (run_calls [Call_Watchdog 0, Call_Configure True] boot_state))) = 1
   \<and> hw_mode (wdt_interrupt (run_calls [Call_Watchdog 0, Call_Configure True] boot_state))
        = ResetMode
   \<and> sleepOrWaitCount boot_state = 0 \<and> waitTotal boot_state = 1
   \<and> sleepOrWaitCount (ISR_WDT boot_state) = 1
   \<and> hw_mode (ISR_WDT boot_state) = ResetMode
   \<and> waitTotal (Sleep 16 boot_state) = 1"
proof -
  have no_write: "\<forall>c \<in> set [Call_Watchdog 0, Call_Sleep 16]. \<not> is_Wait_or_Reset c"
    by simp
  have quiet: "\<forall>c \<in> set [Call_Watchdog 0, Call_Configure True].
      \<not> is_Wait_or_Reset c \<and> \<not> is_Sleep c"
    by simp
  have armed: "hw_mode (run_calls [Call_Watchdog 0, Call_Configure True] boot_state)
      = InterruptMode"
    by (simp add: hw_mode_Configure)
  have flags: "\<not> is_Wait_or_Reset (Call_Watchdog 0) \<and> \<not> is_Wait_or_Reset (Call_Configure True)
      \<and> \<not> is_Wait_or_Reset (Call_Sleep 16)
      \<and> \<not> is_Sleep (Call_Watchdog 0) \<and> \<not> is_Sleep (Call_Configure True)"
    by simp
  from initial_target_until_Wait_or_Reset
      [of "[Call_Watchdog 0, Call_Sleep 16]" boot_state 0 True 16]
    initial_target_until_Wait_or_Reset
      [of "[Call_Watchdog 0, Call_Configure True]" boot_state 0 True 16]
    no_write quiet armed flags
  show ?thesis
    by metis
qed


lemma Sleep_prologue_fields:
  "sleepOrWaitCount (Sleep_prologue s) = 0"
  "sleep_entries (Sleep_prologue s) = sleep_entries s"
  "wdto (Sleep_prologue s) = wdto s"
  by (simp_all add: Sleep_prologue_def set_sleep_mode_def power_all_disable_def Configure_eq)



lemma scast_ucast_small:
  "scast (ucast x :: int16_t) = x" if "unat x < 2 ^ 15" for x :: uint64_t
proof (rule bit_word_eqI)
  fix n
  assume "n < LENGTH(64)"
  have "x < 2 ^ 15" using that by (simp add: word_less_nat_alt)
  then have "x AND mask 15 = x"
    by (rule less_mask_eq)
  then have low: "bit x k = (k < 15 \<and> bit x k)" for k
    by (metis bit_and_iff bit_mask_iff)
  show "bit (scast (ucast x :: int16_t) :: uint64_t) n = bit x n"
  proof (cases "n < 15")
    case True
    then show ?thesis
      by (simp add: bit_simps min_def)
  next
    case False
    then have "min 15 n = 15"
      by simp
    with False low [of n] low [of 15] \<open>n < LENGTH(64)\<close> show ?thesis
      by (simp add: bit_simps)
  qed
qed

lemma Wait_ncycles_ucast: "Wait_ncycles d w = ucast (Sleep_ncycles d w)"
  by (simp add: Wait_ncycles_def Sleep_ncycles_def)

lemma Sleep_ncycles_floor:
  "w \<in> supported_steps \<Longrightarrow> unat (Sleep_ncycles d w) = unat d div stepSeconds w"
  by (auto simp add: supported_steps_def Sleep_ncycles_def unat_div avr_consts stepSeconds_def)

lemma Wait_target_in_range:
  "wdto s \<in> supported_steps \<Longrightarrow> unat d div stepSeconds (wdto s) < 2 ^ 15 \<Longrightarrow>
     waitTotal (Wait d s) = Sleep_ncycles d (wdto s)"
  by (simp add: Wait_def Configure_eq Wait_ncycles_ucast scast_ucast_small Sleep_ncycles_floor)

text \<open>
  Claim C4: both \<^verbatim>\<open>Sleep(d)\<close> and \<^verbatim>\<open>Wait(d)\<close> compute the cycle count
  floor(d / stepSeconds), and \<^verbatim>\<open>Wait\<close> stores it as the Target Cycle Count.
  \<^verbatim>\<open>Sleep\<close> does (\<open>Sleep_ncycles_floor\<close>), and \<^verbatim>\<open>Wait\<close> agrees with it while
  the quotient is below 32768 (\<open>Wait_target_in_range\<close>). Beyond that the code of
  \<^verbatim>\<open>Wait\<close> departs from the claim, here at two requests with the 8-second step.
  For 34359738368 seconds the quotient is 4294967296, which is the cycle count of
  \<^verbatim>\<open>Sleep\<close>; \<^verbatim>\<open>Wait\<close> stores the target 0. For 262144 seconds the quotient is
  32768; \<^verbatim>\<open>Wait\<close> stores its 16-bit sign extension.
\<close>

theorem Wait_truncates_ncycles:
  "wdto (Watchdog 0 boot_state) = WDTO_8S
   \<and> unat (34359738368 :: uint64_t) div stepSeconds WDTO_8S = 4294967296
   \<and> Sleep_ncycles 34359738368 (wdto (Watchdog 0 boot_state)) = 4294967296
   \<and> waitTotal (Wait 34359738368 (Watchdog 0 boot_state)) = 0
   \<and> unat (262144 :: uint64_t) div stepSeconds WDTO_8S = 32768
   \<and> Sleep_ncycles 262144 (wdto (Watchdog 0 boot_state)) = 32768
   \<and> waitTotal (Wait 262144 (Watchdog 0 boot_state)) = 0xFFFFFFFFFFFF8000"
  by (simp add: Watchdog_def wdt_disable_def boot_state_def DeterminePeriod_def Sleep_ncycles_def
      Wait_def Wait_ncycles_def Configure_eq)

lemma Sleep_body_steps: 
  "sleepOrWaitCount s < n \<Longrightarrow> (sleep_step n)\<^sup>*\<^sup>* (LoopTest, s) (LoopTest, Sleep_body s)"
proof -
  assume less: "sleepOrWaitCount s < n"
  have "sleep_step n (LoopTest, s) (Asleep, sleep_cpu (sleep_enable s))"
    using less by (rule Enter)
  moreover have "sleep_step n (Asleep, sleep_cpu (sleep_enable s))
      (Woken, wdt_interrupt (sleep_cpu (sleep_enable s)))"
    by (rule Expire)
  moreover have "sleep_step n (Woken, wdt_interrupt (sleep_cpu (sleep_enable s)))
      (LoopTest, Sleep_body s)"
    unfolding Sleep_body_def sleep_mode_def by (rule Rearm)
  ultimately show ?thesis
    by (meson rtranclp.rtrancl_into_rtrancl rtranclp.rtrancl_refl)
qed

lemma Sleep_loop_steps: "(sleep_step n)\<^sup>*\<^sup>* (LoopTest, s) (LoopTest, Sleep_loop n s)"
proof (induction n s rule: Sleep_loop.induct)
  case (1 ncycles s)
  show ?case
  proof (cases "sleepOrWaitCount s < ncycles")
    case True
    have "Sleep_loop ncycles s = Sleep_loop ncycles (Sleep_body s)"
      using True by (subst Sleep_loop.simps) simp
    with "1.IH" [OF True] Sleep_body_steps [OF True] show ?thesis
      by simp
  next
    case False
    then have "Sleep_loop ncycles s = s"
      by (subst Sleep_loop.simps) simp
    then show ?thesis
      by simp
  qed
qed

lemma Sleep_loop_exit: "\<not> sleepOrWaitCount (Sleep_loop n s) < n"
proof (induction n s rule: Sleep_loop.induct)
  case (1 ncycles s)
  show ?case
  proof (cases "sleepOrWaitCount s < ncycles")
    case True
    with "1.IH" show ?thesis
      by (subst Sleep_loop.simps) simp
  next
    case False
    then show ?thesis
      by (subst Sleep_loop.simps) simp
  qed
qed

lemma Sleep_returns: "sleep_reach (Sleep_ncycles d (wdto s)) s (Returned, Sleep d s)"
proof -
  let ?n = "Sleep_ncycles d (wdto s)"
  have "(sleep_step ?n)\<^sup>*\<^sup>* (LoopTest, Sleep_prologue s) (LoopTest, Sleep_loop ?n (Sleep_prologue s))"
    by (rule Sleep_loop_steps)
  moreover have "sleep_step ?n (LoopTest, Sleep_loop ?n (Sleep_prologue s)) (Returned, Sleep d s)"
    unfolding Sleep_def by (rule Leave) (rule Sleep_loop_exit)
  ultimately show ?thesis
    unfolding sleep_reach_def by (rule rtranclp.rtrancl_into_rtrancl)
qed

lemma sleep_step_inv: "sleep_step n c c' \<Longrightarrow> sleep_inv c \<Longrightarrow> sleep_inv c'"
  by (induction rule: sleep_step.induct)
    (simp_all add: sleep_inv_def hw_mode_Configure Sleep_epilogue_def,
      simp add: hw_mode_def sleep_cpu_def sleep_enable_def)

lemma sleep_reach_inv: "sleep_reach n s c \<Longrightarrow> sleep_inv c"
  unfolding sleep_reach_def
proof (induction rule: rtranclp_induct)
  case base
  show ?case
    by (simp add: sleep_inv_def hw_mode_def Sleep_prologue_def set_sleep_mode_def
        power_all_disable_def Configure_eq mode_of_wdps)
next
  case (step c c')
  then show ?case
    by (blast intro: sleep_step_inv)
qed

lemma hw_mode_Wait: "hw_mode (Wait d s) = InterruptMode"
  by (simp add: Wait_def hw_mode_Configure)

lemma hw_mode_Sleep: "hw_mode (Sleep d s) = ResetMode"
  by (simp add: Sleep_def Sleep_epilogue_def hw_mode_Configure)

lemma wdt_interrupt_below_target:
  "sleepOrWaitCount s + 1 < waitTotal s \<Longrightarrow> hw_mode (wdt_interrupt s) = InterruptMode"
  by (simp add: wdt_interrupt_def reti_def hw_mode_def ISR_WDT_def isr_entry_def Configure_eq
      mode_of_wdps)

lemma of_nat_Suc_less:
  "(of_nat k :: uint64_t) + 1 < T" if "Suc k < unat T"
proof -
  have "unat T < 2 ^ 64"
    using unsigned_less [of T, where ?'a = nat] by simp
  with that have small: "Suc k mod 2 ^ LENGTH(64) = Suc k"
    by simp
  have "unat (of_nat (Suc k) :: uint64_t) = Suc k mod 2 ^ LENGTH(64)"
    by (rule unat_of_nat)
  then have "unat (of_nat (Suc k) :: uint64_t) = Suc k"
    by (simp only: small)
  with that have "unat (of_nat (Suc k) :: uint64_t) < unat T"
    by (simp only:)
  then have "(of_nat (Suc k) :: uint64_t) < T"
    by (simp only: word_less_nat_alt)
  then show ?thesis
    by (simp add: add.commute)
qed

lemma Wait_run:
  "k < unat (waitTotal (Wait d s)) \<Longrightarrow>
     hw_mode ((wdt_interrupt ^^ k) (Wait d s)) = InterruptMode
     \<and> sleepOrWaitCount ((wdt_interrupt ^^ k) (Wait d s)) = of_nat k
     \<and> waitTotal ((wdt_interrupt ^^ k) (Wait d s)) = waitTotal (Wait d s)"
proof (induction k)
  case 0
  show ?case
    by (simp add: hw_mode_Wait) (simp add: Wait_def Configure_eq)
next
  case (Suc k)
  let ?t = "(wdt_interrupt ^^ k) (Wait d s)"
  from Suc have ih: "sleepOrWaitCount ?t = of_nat k" "waitTotal ?t = waitTotal (Wait d s)"
    by simp_all
  from Suc.prems have "of_nat k + 1 < waitTotal (Wait d s)"
    by (rule of_nat_Suc_less)
  then have "sleepOrWaitCount ?t + 1 < waitTotal ?t"
    by (simp add: ih)
  then have "hw_mode (wdt_interrupt ?t) = InterruptMode"
    by (rule wdt_interrupt_below_target)
  then show ?case
    by (simp add: wdt_interrupt_count wdt_interrupt_waitTotal ih)
qed

lemma first_wake_eq:
  "first_wake =
     \<lparr> wdto = WDTO_8S, sleepOrWaitCount = 1, waitTotal = 1,
       WDTCSR = 0x29, MCUSR = 0, irq_enabled = True, wdt_timer = 0,
       peripherals_on = False, sleep_sel = SLEEP_MODE_PWR_DOWN, sleep_en = True,
       sleep_entries = 1 \<rparr>"
  by (simp add: first_wake_def hw_defs avr_consts)

text \<open>
  Claim C5, as stated, fails. \<^verbatim>\<open>Sleep(16)\<close> as the first call of the program has
  a cycle count of 2. After the first expiry the CPU has been woken, the counter is
  1, so the sequence is still in progress, and the mode is Reset Mode: the handler
  has found the counter equal to the initial target 1 and has called
  \<^verbatim>\<open>Configure()\<close>. The same holds when the target has been cleared first: the
  expiry itself has put the hardware in Reset Mode and the handler has not re-armed.
\<close>

theorem Sleep_wakes_in_Reset_Mode:
  "Sleep_ncycles 16 (wdto boot_state) = 2
   \<and> sleep_reach 2 boot_state (Woken, first_wake)
   \<and> sleepOrWaitCount first_wake < 2
   \<and> hw_mode first_wake = ResetMode
   \<and> waitTotal (Reset 0 (Watchdog 0 boot_state)) = 0
   \<and> sleep_reach 2 (Reset 0 (Watchdog 0 boot_state)) (Woken, reti (ISR_WDT sleep_first_firing))
   \<and> sleepOrWaitCount (reti (ISR_WDT sleep_first_firing)) < 2
   \<and> hw_mode (reti (ISR_WDT sleep_first_firing)) = ResetMode"
proof -
  let ?r = "Reset 0 (Watchdog 0 boot_state)"
  have "sleepOrWaitCount (Sleep_prologue ?r) < 2"
    by (simp add: Sleep_prologue_fields)
  then have "sleep_step 2 (LoopTest, Sleep_prologue ?r)
      (Asleep, sleep_cpu (sleep_enable (Sleep_prologue ?r)))"
    by (rule Enter)
  moreover have "sleep_step 2 (Asleep, sleep_cpu (sleep_enable (Sleep_prologue ?r)))
      (Woken, reti (ISR_WDT sleep_first_firing))"
    unfolding sleep_first_firing_def using Expire [of 2 "sleep_cpu (sleep_enable (Sleep_prologue ?r))"]
    by (simp only: wdt_interrupt_def)
  ultimately have cleared: "sleep_reach 2 ?r (Woken, reti (ISR_WDT sleep_first_firing))"
    unfolding sleep_reach_def by (meson rtranclp.rtrancl_into_rtrancl rtranclp.rtrancl_refl)
  have cleared_mode: "waitTotal ?r = 0"
    "sleepOrWaitCount (reti (ISR_WDT sleep_first_firing)) < 2"
    "hw_mode (reti (ISR_WDT sleep_first_firing)) = ResetMode"
    by (simp_all add: sleep_first_firing_eq ISR_WDT_def reti_def hw_mode_def mode_of_def avr_consts)
      (simp add: hw_defs avr_consts)
  have "sleepOrWaitCount (Sleep_prologue boot_state) < 2"
    by (simp add: hw_defs)
  then have "sleep_step 2 (LoopTest, Sleep_prologue boot_state)
      (Asleep, sleep_cpu (sleep_enable (Sleep_prologue boot_state)))"
    by (rule Enter)
  moreover have "sleep_step 2 (Asleep, sleep_cpu (sleep_enable (Sleep_prologue boot_state)))
      (Woken, first_wake)"
    unfolding first_wake_def by (rule Expire)
  ultimately have "sleep_reach 2 boot_state (Woken, first_wake)"
    unfolding sleep_reach_def by (meson rtranclp.rtrancl_into_rtrancl rtranclp.rtrancl_refl)
  moreover have "Sleep_ncycles 16 (wdto boot_state) = 2"
    by (simp add: Sleep_ncycles_def boot_state_def)
  moreover have "sleepOrWaitCount first_wake < 2" "hw_mode first_wake = ResetMode"
    by (simp_all add: first_wake_eq hw_mode_def mode_of_def avr_consts)
  ultimately show ?thesis
    using cleared cleared_mode by simp
qed

text \<open>
  Claim C5, amended. In every configuration of a \<^verbatim>\<open>Sleep\<close> sequence in which the
  loop tests its condition or the CPU is in the low-power state, the Operating Mode
  is Interrupt Mode, and when \<^verbatim>\<open>Sleep\<close> has returned it is Reset Mode; between an
  expiry and the loop's re-arm the mode is not constrained. \<^verbatim>\<open>Sleep\<close> does return:
  the steps lead from its prologue to the result of the call. \<^verbatim>\<open>Wait\<close> returns in
  Interrupt Mode, and the mode is Interrupt Mode after each of the first \<open>k\<close>
  expiries, for every \<open>k\<close> below the Target Cycle Count.
\<close>

theorem Sleep_Wait_mode:
  "(sleep_reach n s (pc, t) \<longrightarrow>
      (pc = LoopTest \<or> pc = Asleep \<longrightarrow> hw_mode t = InterruptMode)
      \<and> (pc = Returned \<longrightarrow> hw_mode t = ResetMode))
   \<and> sleep_reach (Sleep_ncycles d (wdto s)) s (Returned, Sleep d s)
   \<and> hw_mode (Sleep d s) = ResetMode
   \<and> hw_mode (Wait d s) = InterruptMode
   \<and> (k < unat (waitTotal (Wait d s)) \<longrightarrow>
        hw_mode ((wdt_interrupt ^^ k) (Wait d s)) = InterruptMode)"
proof -
  have "sleep_reach n s (pc, t) \<longrightarrow>
      (pc = LoopTest \<or> pc = Asleep \<longrightarrow> hw_mode t = InterruptMode)
      \<and> (pc = Returned \<longrightarrow> hw_mode t = ResetMode)"
  proof
    assume "sleep_reach n s (pc, t)"
    then have "sleep_inv (pc, t)"
      by (rule sleep_reach_inv)
    then show "(pc = LoopTest \<or> pc = Asleep \<longrightarrow> hw_mode t = InterruptMode)
        \<and> (pc = Returned \<longrightarrow> hw_mode t = ResetMode)"
      by (auto simp add: sleep_inv_def)
  qed
  moreover have "k < unat (waitTotal (Wait d s)) \<longrightarrow>
      hw_mode ((wdt_interrupt ^^ k) (Wait d s)) = InterruptMode"
    using Wait_run [of k d s] by blast
  ultimately show ?thesis
    using Sleep_returns [of d s] hw_mode_Sleep [of d s] hw_mode_Wait [of d s] by blast
qed

theorem Sleep_Wait_mode_witness:
  "sleep_reach 2 boot_state (Asleep, sleep_cpu (sleep_enable (Sleep_prologue boot_state)))
   \<and> hw_mode (sleep_cpu (sleep_enable (Sleep_prologue boot_state))) = InterruptMode
   \<and> sleep_reach (Sleep_ncycles 20 (wdto boot_state)) boot_state (Returned, Sleep 20 boot_state)
   \<and> hw_mode (Sleep 20 boot_state) = ResetMode
   \<and> Suc 0 < unat (waitTotal (Wait 20 boot_state))
   \<and> hw_mode ((wdt_interrupt ^^ Suc 0) (Wait 20 boot_state)) = InterruptMode"
proof -
  have "sleepOrWaitCount (Sleep_prologue boot_state) < 2"
    by (simp add: hw_defs)
  then have "sleep_step 2 (LoopTest, Sleep_prologue boot_state)
      (Asleep, sleep_cpu (sleep_enable (Sleep_prologue boot_state)))"
    by (rule Enter)
  then have reach: "sleep_reach 2 boot_state
      (Asleep, sleep_cpu (sleep_enable (Sleep_prologue boot_state)))"
    unfolding sleep_reach_def by (rule r_into_rtranclp)
  have pending: "Suc 0 < unat (waitTotal (Wait 20 boot_state))"
    by (simp add: hw_defs)
  from Sleep_Wait_mode
    [of 2 boot_state Asleep "sleep_cpu (sleep_enable (Sleep_prologue boot_state))" 20 "Suc 0"]
    reach pending
  show ?thesis
    by blast
qed

end
